theory Spec2Isabelle
  imports Main "HOL-Library.Word" "HOL-Library.Monad_Syntax"
begin

section \<open>The flow-start JSON logger of output-json-flowstart.c\<close>

text \<open>
  The module decides for every packet whether it is the first packet of a flow
  (\<open>JsonFlowstartLogCondition\<close>) and, if so, writes one JSON record to a log file
  (\<open>JsonFlowstartLogger\<close>, \<open>FlowstartLogJSON\<close>). The rest of the file creates and
  destroys the per-thread state and the two kinds of output context.

  Only output-json-flowstart.c is part of the sources. The packet and flow structures,
  the allocator, the memory buffer, the log-file context and the JSON library are
  declared elsewhere; what this file needs of them is modelled below, each with a
  comment that says so.
\<close>

subsection \<open>Packets and flows\<close>

text \<open>
  Modelled from the spec: a flow exposes two per-direction packet counters
  (\<open>todstpktcnt\<close>, \<open>tosrcpktcnt\<close>, declared in flow.h). They are unsigned machine
  integers; their width \<open>'w\<close> is left open, and the sum the code computes is the sum
  in that type, which wraps around.
\<close>

record (overloaded) 'w Flow =
  todstpktcnt :: "'w word"
  tosrcpktcnt :: "'w word"

text \<open>
  Modelled from the spec: a packet exposes a nullable reference to its flow
  (\<open>p->flow\<close>, \<open>None\<close> for \<open>NULL\<close>), whether it is a pseudo packet (what the
  macro \<open>PKT_IS_PSEUDOPKT\<close> of decode.h reads) and the index of its ingress interface
  (\<open>p->nfq_v.ifi\<close>, present in NFQ builds).
\<close>

record (overloaded) 'w Packet =
  pseudo :: bool
  flow :: "'w Flow option"
  nfq_v_ifi :: nat

definition PKT_IS_PSEUDOPKT :: "'w::len Packet \<Rightarrow> bool" where
  "PKT_IS_PSEUDOPKT p = pseudo p"

text \<open>
  Reading a field of the flow through the packet's flow pointer (\<open>p->flow->field\<close>):
  through a null pointer the read is a fault, the value \<open>None\<close>.
\<close>

definition flow_read :: "('w::len Flow \<Rightarrow> 'a) \<Rightarrow> 'w Packet \<Rightarrow> 'a option" where
  "flow_read field p = (case flow p of None \<Rightarrow> None | Some f \<Rightarrow> Some (field f))"

text \<open>
  What the module reads from the process and the build: the engine mode
  (\<open>EngineModeIsIPS()\<close>); whether the build defines \<open>NFQ\<close>; the C library's
  \<open>if_indextoname\<close>, which fails (returns \<open>NULL\<close>, here \<open>None\<close>) for an index
  that names no interface; what the uninitialised stack array \<open>name\<close> of
  \<open>FlowstartLogJSON\<close> happens to hold; the JSON library's \<open>json_string\<close>, which
  returns \<open>NULL\<close> for a text it does not accept; and the JSON library's serialisation
  of an object.
\<close>

record env =
  EngineModeIsIPS :: bool
  NFQ :: bool
  if_indextoname :: "nat \<Rightarrow> string option"
  name_uninit :: string
  json_string :: "string \<Rightarrow> string option"
  json_dumps :: "(string \<times> string) list \<Rightarrow> string"

subsection \<open>The condition evaluator\<close>

text \<open>
  \<open>JsonFlowstartLogCondition\<close>. The result is \<open>None\<close> when the evaluation reads
  through a null flow pointer.
\<close>

definition JsonFlowstartLogCondition :: "env \<Rightarrow> 'w::len Packet \<Rightarrow> bool option" where
  "JsonFlowstartLogCondition e p =
     (if \<not> EngineModeIsIPS e then Some False
      else if PKT_IS_PSEUDOPKT p then Some False
      else if flow p = None then Some False
      else do { todst \<leftarrow> flow_read todstpktcnt p;
                tosrc \<leftarrow> flow_read tosrcpktcnt p;
                if todst + tosrc = 1 then Some True else Some False })"

subsection \<open>Memory and the objects of the module\<close>

text \<open>
  Pointers are addresses, \<open>None\<close> for \<open>NULL\<close>. Every structure the module
  allocates or is handed lives in a store; reading through a pointer that is null, freed
  or of another type is a fault, the value \<open>None\<close> of the operation.
\<close>

type_synonym addr = nat

text \<open>
  Modelled from the spec: the success and the failure status handed back to the host
  (\<open>TmEcode\<close> of tm-threads-common.h). \<open>FlowstartLogJSON\<close> returns the status as
  an \<open>int\<close>; the enumeration starts with the success status, which is 0.
\<close>

datatype TmEcode = TM_ECODE_OK | TM_ECODE_FAILED

fun TmEcode_int :: "TmEcode \<Rightarrow> int" where
  "TmEcode_int TM_ECODE_OK = 0"
| "TmEcode_int TM_ECODE_FAILED = 1"

text \<open>The two destructors an \<open>OutputCtx\<close> can be bound to (its \<open>DeInit\<close> pointer).\<close>

datatype DeInitFn = FN_JsonFlowstartLogDeInitCtx | FN_JsonFlowstartLogDeInitCtxSub

record OutputCtx =
  data :: "addr option"
  DeInit :: "DeInitFn option"

record JsonFlowstartOutputCtx =
  file_ctx :: "addr option"

record JsonFlowstartLogThread =
  flowstart_ctx :: "addr option"
  buffer :: "addr option"

text \<open>The parent context of the sub-module (output-json.h); only its sink is read.\<close>

record OutputJsonCtx =
  ojc_file_ctx :: "addr option"

text \<open>
  Modelled from the spec: the scratch buffer (\<open>MemBuffer\<close> of util-buffer.h) is a
  growable byte buffer with a capacity (\<open>mb_size\<close>) and the bytes written so far
  (\<open>mb_bytes\<close>; their number is the buffer's offset).
\<close>

record MemBuffer =
  mb_size :: nat
  mb_bytes :: string

text \<open>
  Modelled from the spec: the sink (\<open>LogFileCtx\<close> of util-logopenfile.h) is an
  append-only destination; it records the name it was opened with and the writes it
  received, in order.
\<close>

record LogFileCtx =
  filename :: "string option"
  written :: "string list"

text \<open>Modelled from the spec: the configuration node names the output file, or not.\<close>

record ConfNode =
  conf_filename :: "string option"

type_synonym json_t = "(string \<times> string) list"

datatype obj =
    Raw
  | O_OutputCtx OutputCtx
  | O_JsonFlowstartOutputCtx JsonFlowstartOutputCtx
  | O_JsonFlowstartLogThread JsonFlowstartLogThread
  | O_OutputJsonCtx OutputJsonCtx
  | O_MemBuffer MemBuffer
  | O_LogFileCtx LogFileCtx
  | O_json json_t

text \<open>The frees and the memsets the module performs, in the order it performs them.\<close>

datatype event = EvFree addr | EvMemset addr | EvLogFileFreeCtx addr

text \<open>
  The state: the store of live objects, the address the next allocation returns (the
  properties below assume that it and its successors are unused, as an allocator
  guarantees), the outcomes of the
  calls that can fail (allocations, the file open, the header construction, the sink
  write), in the order the calls are made (\<open>False\<close> is a failure; an exhausted list
  means success), the frees and memsets so far, and, for every block handed back with
  \<open>SCFree\<close>, what the block held when it was handed back.
\<close>

record world =
  heap :: "addr \<Rightarrow> obj option"
  brk :: addr
  script :: "bool list"
  events :: "event list"
  released :: "addr \<Rightarrow> obj option"

definition next_ok :: "world \<Rightarrow> bool" where
  "next_ok w = (case script w of [] \<Rightarrow> True | b # _ \<Rightarrow> b)"

definition consume :: "world \<Rightarrow> world" where
  "consume w = w\<lparr>script := tl (script w)\<rparr>"

definition new_obj :: "obj \<Rightarrow> world \<Rightarrow> addr option \<times> world" where
  "new_obj x w =
     (if next_ok w
      then (Some (brk w), (consume w)\<lparr>heap := (heap w)(brk w \<mapsto> x), brk := Suc (brk w)\<rparr>)
      else (None, consume w))"

definition store :: "addr \<Rightarrow> obj \<Rightarrow> world \<Rightarrow> world" where
  "store a x w = w\<lparr>heap := (heap w)(a \<mapsto> x)\<rparr>"

fun as_OutputCtx :: "obj \<Rightarrow> OutputCtx option" where
  "as_OutputCtx (O_OutputCtx x) = Some x"
| "as_OutputCtx _ = None"

fun as_JsonFlowstartOutputCtx :: "obj \<Rightarrow> JsonFlowstartOutputCtx option" where
  "as_JsonFlowstartOutputCtx (O_JsonFlowstartOutputCtx x) = Some x"
| "as_JsonFlowstartOutputCtx _ = None"

fun as_JsonFlowstartLogThread :: "obj \<Rightarrow> JsonFlowstartLogThread option" where
  "as_JsonFlowstartLogThread (O_JsonFlowstartLogThread x) = Some x"
| "as_JsonFlowstartLogThread _ = None"

fun as_OutputJsonCtx :: "obj \<Rightarrow> OutputJsonCtx option" where
  "as_OutputJsonCtx (O_OutputJsonCtx x) = Some x"
| "as_OutputJsonCtx _ = None"

fun as_MemBuffer :: "obj \<Rightarrow> MemBuffer option" where
  "as_MemBuffer (O_MemBuffer x) = Some x"
| "as_MemBuffer _ = None"

fun as_LogFileCtx :: "obj \<Rightarrow> LogFileCtx option" where
  "as_LogFileCtx (O_LogFileCtx x) = Some x"
| "as_LogFileCtx _ = None"

fun as_json :: "obj \<Rightarrow> json_t option" where
  "as_json (O_json x) = Some x"
| "as_json _ = None"

text \<open>Reading a structure of a given type through a pointer.\<close>

definition load :: "(obj \<Rightarrow> 'a option) \<Rightarrow> world \<Rightarrow> addr option \<Rightarrow> 'a option" where
  "load as w p = do { a \<leftarrow> p; x \<leftarrow> heap w a; as x }"

subsection \<open>The allocator, the buffer, the sink and the JSON library\<close>

text \<open>
  Modelled from the spec: \<open>SCMalloc\<close>, \<open>SCCalloc\<close> and \<open>SCFree\<close> are the C
  allocator. An allocation can fail and then returns \<open>NULL\<close>; \<open>SCMalloc\<close> returns
  uninitialised memory, \<open>SCCalloc\<close> zeroed memory (the zeroed structure is its
  argument here); freeing \<open>NULL\<close> does nothing; freeing what is not live is a fault.
\<close>

definition SCMalloc :: "world \<Rightarrow> addr option \<times> world" where
  "SCMalloc w = new_obj Raw w"

definition SCCalloc :: "obj \<Rightarrow> world \<Rightarrow> addr option \<times> world" where
  "SCCalloc zero w = new_obj zero w"

definition SCFree :: "addr option \<Rightarrow> world \<Rightarrow> world option" where
  "SCFree p w =
     (case p of
        None \<Rightarrow> Some w
      | Some a \<Rightarrow>
          (case heap w a of
             None \<Rightarrow> None
           | Some x \<Rightarrow>
               Some (w\<lparr>heap := (heap w)(a := None),
                       events := events w @ [EvFree a],
                       released := (released w)(a \<mapsto> x)\<rparr>)))"

text \<open>\<open>memset(aft, 0, sizeof(*aft))\<close> on the memory of a thread state.\<close>

definition memset_JsonFlowstartLogThread :: "addr option \<Rightarrow> world \<Rightarrow> world option" where
  "memset_JsonFlowstartLogThread p w =
     do { a \<leftarrow> p;
          _ \<leftarrow> heap w a;
          Some ((store a (O_JsonFlowstartLogThread \<lparr>flowstart_ctx = None, buffer = None\<rparr>) w)
                  \<lparr>events := events w @ [EvMemset a]\<rparr>) }"

text \<open>
  Modelled from the spec: \<open>MemBufferCreateNew\<close> allocates an empty buffer of the
  given capacity and can fail; \<open>MemBufferFree\<close> releases a non-null buffer;
  \<open>MemBufferReset\<close> truncates the buffer to empty and retains its capacity.
\<close>

definition MemBufferCreateNew :: "nat \<Rightarrow> world \<Rightarrow> addr option \<times> world" where
  "MemBufferCreateNew n w = new_obj (O_MemBuffer \<lparr>mb_size = n, mb_bytes = []\<rparr>) w"

definition MemBufferFree :: "addr option \<Rightarrow> world \<Rightarrow> world option" where
  "MemBufferFree p w = (if p \<noteq> None then SCFree p w else Some w)"

definition MemBufferReset :: "addr option \<Rightarrow> world \<Rightarrow> world option" where
  "MemBufferReset p w =
     do { b \<leftarrow> load as_MemBuffer w p;
          a \<leftarrow> p;
          Some (store a (O_MemBuffer (b\<lparr>mb_bytes := []\<rparr>)) w) }"

text \<open>
  Modelled from the spec: \<open>LogFileNewCtx\<close> allocates an unopened sink and can fail;
  \<open>LogFileFreeCtx\<close> destroys a sink; \<open>SCConfLogOpenGeneric\<close> opens the sink under
  the configured file name, or under the caller's default name when none is configured,
  and returns a negative status when the open fails.
\<close>

definition LogFileNewCtx :: "world \<Rightarrow> addr option \<times> world" where
  "LogFileNewCtx w = new_obj (O_LogFileCtx \<lparr>filename = None, written = []\<rparr>) w"

definition LogFileFreeCtx :: "addr option \<Rightarrow> world \<Rightarrow> world option" where
  "LogFileFreeCtx p w =
     (case p of
        None \<Rightarrow> Some w
      | Some a \<Rightarrow>
          do { _ \<leftarrow> load as_LogFileCtx w p;
               Some (w\<lparr>heap := (heap w)(a := None),
                       events := events w @ [EvLogFileFreeCtx a]\<rparr>) })"

definition SCConfLogOpenGeneric ::
    "ConfNode \<Rightarrow> addr option \<Rightarrow> string \<Rightarrow> int \<Rightarrow> world \<Rightarrow> (int \<times> world) option" where
  "SCConfLogOpenGeneric conf log_ctx default_filename rotate_flag w =
     do { l \<leftarrow> load as_LogFileCtx w log_ctx;
          a \<leftarrow> log_ctx;
          if next_ok w
          then Some (0, store a
                 (O_LogFileCtx (l\<lparr>filename :=
                    Some (case conf_filename conf of None \<Rightarrow> default_filename | Some n \<Rightarrow> n)\<rparr>))
                 (consume w))
          else Some (- 1, consume w) }"

text \<open>
  Modelled from the spec: \<open>CreateJSONHeader\<close> builds the event header, tagged with
  the event type, and returns \<open>NULL\<close> when it fails (the header's other fields come
  from code outside this module and are left out); \<open>json_object_set_new\<close> sets a
  field, and sets nothing when the value is \<open>NULL\<close> (the status it returns is not
  read by the module); \<open>json_object_clear\<close> empties the object, \<open>json_decref\<close>
  releases it.
\<close>

definition CreateJSONHeader :: "'w::len Packet \<Rightarrow> int \<Rightarrow> string \<Rightarrow> world \<Rightarrow> addr option \<times> world" where
  "CreateJSONHeader p direction_sensitive event_type w =
     new_obj (O_json [(''event_type'', event_type)]) w"

definition json_object_set_new ::
    "addr option \<Rightarrow> string \<Rightarrow> string option \<Rightarrow> world \<Rightarrow> world option" where
  "json_object_set_new js k val w =
     do { j \<leftarrow> load as_json w js;
          a \<leftarrow> js;
          (case val of
             None \<Rightarrow> Some w
           | Some v \<Rightarrow> Some (store a (O_json (filter (\<lambda>kv. fst kv \<noteq> k) j @ [(k, v)])) w)) }"

definition json_object_clear :: "addr option \<Rightarrow> world \<Rightarrow> world option" where
  "json_object_clear js w =
     do { _ \<leftarrow> load as_json w js;
          a \<leftarrow> js;
          Some (store a (O_json []) w) }"

definition json_decref :: "addr option \<Rightarrow> world \<Rightarrow> world option" where
  "json_decref js w =
     do { _ \<leftarrow> load as_json w js;
          a \<leftarrow> js;
          Some (w\<lparr>heap := (heap w)(a := None)\<rparr>) }"

text \<open>
  Modelled from the spec: \<open>OutputJSONBuffer\<close> serialises the record through the
  scratch buffer into the sink. The serialisation is appended to the buffer, whose
  capacity grows when needed and never shrinks; the buffer's bytes are then written to
  the sink as one write. The write can report an I/O failure, a negative status, and
  then the sink receives nothing.
\<close>

definition OutputJSONBuffer ::
    "env \<Rightarrow> addr option \<Rightarrow> addr option \<Rightarrow> addr option \<Rightarrow> world \<Rightarrow> (int \<times> world) option" where
  "OutputJSONBuffer e js log_ctx buf w =
     do { j \<leftarrow> load as_json w js;
          l \<leftarrow> load as_LogFileCtx w log_ctx;
          b \<leftarrow> load as_MemBuffer w buf;
          s \<leftarrow> log_ctx;
          ba \<leftarrow> buf;
          let bytes = mb_bytes b @ json_dumps e j;
              w1 = store ba (O_MemBuffer \<lparr>mb_size = max (mb_size b) (length bytes),
                                         mb_bytes = bytes\<rparr>) w
          in if next_ok w1
             then Some (0, store s (O_LogFileCtx (l\<lparr>written := written l @ [bytes]\<rparr>))
                             (consume w1))
             else Some (- 1, consume w1) }"

subsection \<open>Emission\<close>

text \<open>
  The local array \<open>name\<close> of \<open>FlowstartLogJSON\<close> after
  \<open>if_indextoname (p->nfq_v.ifi, name)\<close>: the interface's name, or, when the lookup
  fails, what the uninitialised array held, since the code does not test the result.
\<close>

definition name_after_lookup :: "env \<Rightarrow> nat \<Rightarrow> string" where
  "name_after_lookup e ifi =
     (case if_indextoname e ifi of None \<Rightarrow> name_uninit e | Some n \<Rightarrow> n)"

text \<open>
  \<open>FlowstartLogJSON\<close>. The pointer \<open>&aft->buffer\<close> handed to
  \<open>OutputJSONBuffer\<close> is the buffer itself here: the buffer grows in place.
\<close>

definition FlowstartLogJSON ::
    "env \<Rightarrow> addr option \<Rightarrow> 'w::len Packet \<Rightarrow> world \<Rightarrow> (int \<times> world) option" where
  "FlowstartLogJSON e aft p w =
     (case CreateJSONHeader p 0 ''flow_start'' w of
        (None, w1) \<Rightarrow> Some (TmEcode_int TM_ECODE_OK, w1)
      | (Some js, w1) \<Rightarrow>
          do { w2 \<leftarrow> (if NFQ e \<and> nfq_v_ifi p \<noteq> 0
                      then json_object_set_new (Some js) ''in_dev''
                             (json_string e (name_after_lookup e (nfq_v_ifi p))) w1
                      else Some w1);
               t \<leftarrow> load as_JsonFlowstartLogThread w2 aft;
               w3 \<leftarrow> MemBufferReset (buffer t) w2;
               c \<leftarrow> load as_JsonFlowstartOutputCtx w3 (flowstart_ctx t);
               (r, w4) \<leftarrow> OutputJSONBuffer e (Some js) (file_ctx c) (buffer t) w3;
               w5 \<leftarrow> json_object_clear (Some js) w4;
               w6 \<leftarrow> json_decref (Some js) w5;
               Some (TmEcode_int TM_ECODE_OK, w6) })"

definition JsonFlowstartLogger ::
    "env \<Rightarrow> addr option \<Rightarrow> 'w::len Packet \<Rightarrow> world \<Rightarrow> (int \<times> world) option" where
  "JsonFlowstartLogger e thread_data p w =
     do { (r, w1) \<leftarrow> FlowstartLogJSON e thread_data p w;
          if r < 0 then Some (- 1, w1) else Some (0, w1) }"

subsection \<open>Thread-local state\<close>

definition OUTPUT_BUFFER_SIZE :: nat where
  "OUTPUT_BUFFER_SIZE = 65535"

text \<open>
  \<open>JsonFlowstartLogThreadInit\<close>. The argument \<open>data_p\<close> is the content of the
  out-parameter \<open>*data\<close> before the call; the result carries its content after it.
\<close>

definition JsonFlowstartLogThreadInit ::
    "addr option \<Rightarrow> addr option \<Rightarrow> world \<Rightarrow> ((TmEcode \<times> addr option) \<times> world) option" where
  "JsonFlowstartLogThreadInit initdata data_p w =
     (case SCMalloc w of
        (None, w1) \<Rightarrow> Some ((TM_ECODE_FAILED, data_p), w1)
      | (Some aft, w1) \<Rightarrow>
          do { w2 \<leftarrow> memset_JsonFlowstartLogThread (Some aft) w1;
               if initdata = None
               then do { w3 \<leftarrow> SCFree (Some aft) w2;
                         Some ((TM_ECODE_FAILED, data_p), w3) }
               else (case MemBufferCreateNew OUTPUT_BUFFER_SIZE w2 of
                       (b, w3) \<Rightarrow>
                         do { t \<leftarrow> load as_JsonFlowstartLogThread w3 (Some aft);
                              let w4 = store aft (O_JsonFlowstartLogThread (t\<lparr>buffer := b\<rparr>)) w3
                              in if b = None
                                 then do { w5 \<leftarrow> SCFree (Some aft) w4;
                                           Some ((TM_ECODE_FAILED, data_p), w5) }
                                 else do { oc \<leftarrow> load as_OutputCtx w4 initdata;
                                           t' \<leftarrow> load as_JsonFlowstartLogThread w4 (Some aft);
                                           Some ((TM_ECODE_OK, Some aft),
                                                 store aft (O_JsonFlowstartLogThread
                                                   (t'\<lparr>flowstart_ctx := data oc\<rparr>)) w4) } }) })"

definition JsonFlowstartLogThreadDeinit ::
    "addr option \<Rightarrow> world \<Rightarrow> (TmEcode \<times> world) option" where
  "JsonFlowstartLogThreadDeinit data_p w =
     (case data_p of
        None \<Rightarrow> Some (TM_ECODE_OK, w)
      | Some aft \<Rightarrow>
          do { t \<leftarrow> load as_JsonFlowstartLogThread w (Some aft);
               w1 \<leftarrow> MemBufferFree (buffer t) w;
               w2 \<leftarrow> memset_JsonFlowstartLogThread (Some aft) w1;
               w3 \<leftarrow> SCFree (Some aft) w2;
               Some (TM_ECODE_OK, w3) })"

subsection \<open>Output contexts\<close>

definition JsonFlowstartOutputCtxFree :: "addr option \<Rightarrow> world \<Rightarrow> world option" where
  "JsonFlowstartOutputCtxFree flowstart_ctx_p w =
     (if flowstart_ctx_p \<noteq> None
      then do { c \<leftarrow> load as_JsonFlowstartOutputCtx w flowstart_ctx_p;
                w1 \<leftarrow> (if file_ctx c \<noteq> None then LogFileFreeCtx (file_ctx c) w else Some w);
                SCFree flowstart_ctx_p w1 }
      else Some w)"

definition JsonFlowstartLogDeInitCtx :: "addr option \<Rightarrow> world \<Rightarrow> world option" where
  "JsonFlowstartLogDeInitCtx output_ctx w =
     do { oc \<leftarrow> load as_OutputCtx w output_ctx;
          w1 \<leftarrow> JsonFlowstartOutputCtxFree (data oc) w;
          SCFree output_ctx w1 }"

definition JsonFlowstartLogDeInitCtxSub :: "addr option \<Rightarrow> world \<Rightarrow> world option" where
  "JsonFlowstartLogDeInitCtxSub output_ctx w =
     do { oc \<leftarrow> load as_OutputCtx w output_ctx;
          w1 \<leftarrow> SCFree (data oc) w;
          SCFree output_ctx w1 }"

definition DEFAULT_LOG_FILENAME :: string where
  "DEFAULT_LOG_FILENAME = ''flowstart.json''"

definition JsonFlowstartLogInitCtx :: "ConfNode \<Rightarrow> world \<Rightarrow> (addr option \<times> world) option" where
  "JsonFlowstartLogInitCtx conf w =
     (case SCCalloc (O_JsonFlowstartOutputCtx \<lparr>file_ctx = None\<rparr>) w of
        (None, w1) \<Rightarrow> Some (None, w1)
      | (Some flowstart_ctx_p, w1) \<Rightarrow>
          (case LogFileNewCtx w1 of
             (fc, w2) \<Rightarrow>
               do { c \<leftarrow> load as_JsonFlowstartOutputCtx w2 (Some flowstart_ctx_p);
                    let w3 = store flowstart_ctx_p
                               (O_JsonFlowstartOutputCtx (c\<lparr>file_ctx := fc\<rparr>)) w2
                    in if fc = None
                       then do { w4 \<leftarrow> JsonFlowstartOutputCtxFree (Some flowstart_ctx_p) w3;
                                 Some (None, w4) }
                       else do { (r, w4) \<leftarrow> SCConfLogOpenGeneric conf fc DEFAULT_LOG_FILENAME 1 w3;
                                 if r < 0
                                 then do { w5 \<leftarrow> JsonFlowstartOutputCtxFree (Some flowstart_ctx_p) w4;
                                           Some (None, w5) }
                                 else (case SCCalloc (O_OutputCtx \<lparr>data = None, DeInit = None\<rparr>) w4 of
                                         (None, w5) \<Rightarrow>
                                           do { w6 \<leftarrow> JsonFlowstartOutputCtxFree (Some flowstart_ctx_p) w5;
                                                Some (None, w6) }
                                       | (Some output_ctx, w5) \<Rightarrow>
                                           do { oc \<leftarrow> load as_OutputCtx w5 (Some output_ctx);
                                                Some (Some output_ctx,
                                                      store output_ctx
                                                        (O_OutputCtx (oc\<lparr>data := Some flowstart_ctx_p,
                                                           DeInit := Some FN_JsonFlowstartLogDeInitCtx\<rparr>))
                                                        w5) }) } }))"

definition JsonFlowstartLogInitCtxSub ::
    "ConfNode \<Rightarrow> addr option \<Rightarrow> world \<Rightarrow> (addr option \<times> world) option" where
  "JsonFlowstartLogInitCtxSub conf parent_ctx w =
     do { pc \<leftarrow> load as_OutputCtx w parent_ctx;
          (case SCCalloc (O_JsonFlowstartOutputCtx \<lparr>file_ctx = None\<rparr>) w of
             (None, w1) \<Rightarrow> Some (None, w1)
           | (Some flowstart_ctx_p, w1) \<Rightarrow>
               (case SCCalloc (O_OutputCtx \<lparr>data = None, DeInit = None\<rparr>) w1 of
                  (None, w2) \<Rightarrow>
                    do { w3 \<leftarrow> JsonFlowstartOutputCtxFree (Some flowstart_ctx_p) w2;
                         Some (None, w3) }
                | (Some output_ctx, w2) \<Rightarrow>
                    do { ojc \<leftarrow> load as_OutputJsonCtx w2 (data pc);
                         c \<leftarrow> load as_JsonFlowstartOutputCtx w2 (Some flowstart_ctx_p);
                         let w3 = store flowstart_ctx_p
                                    (O_JsonFlowstartOutputCtx (c\<lparr>file_ctx := ojc_file_ctx ojc\<rparr>)) w2
                         in do { oc \<leftarrow> load as_OutputCtx w3 (Some output_ctx);
                                 Some (Some output_ctx,
                                       store output_ctx
                                         (O_OutputCtx (oc\<lparr>data := Some flowstart_ctx_p,
                                            DeInit := Some FN_JsonFlowstartLogDeInitCtxSub\<rparr>))
                                         w3) } })) }"

subsection \<open>Notions the properties are stated with\<close>

text \<open>Whether the \<open>n\<close>-th next call that can fail succeeds (counted from 0).\<close>

definition outcome :: "world \<Rightarrow> nat \<Rightarrow> bool" where
  "outcome w n = (if n < length (script w) then script w ! n else True)"

text \<open>How often the sink at an address has been destroyed so far.\<close>

definition sink_frees :: "world \<Rightarrow> addr \<Rightarrow> nat" where
  "sink_frees w s = length (filter (\<lambda>ev. ev = EvLogFileFreeCtx s) (events w))"

text \<open>
  A usable thread state: the pointer leads to a thread state whose buffer is a live
  buffer and whose context is a live context with a live sink.
\<close>

definition thread_ok :: "world \<Rightarrow> addr option \<Rightarrow> bool" where
  "thread_ok w aft =
     (case load as_JsonFlowstartLogThread w aft of
        None \<Rightarrow> False
      | Some t \<Rightarrow>
          (case load as_MemBuffer w (buffer t) of
             None \<Rightarrow> False
           | Some _ \<Rightarrow>
               (case load as_JsonFlowstartOutputCtx w (flowstart_ctx t) of
                  None \<Rightarrow> False
                | Some c \<Rightarrow>
                    (case load as_LogFileCtx w (file_ctx c) of
                       None \<Rightarrow> False
                     | Some _ \<Rightarrow> True))))"

text \<open>
  The record of one event: the header, tagged \<open>flow_start\<close>, and, when the build has
  NFQ and the packet carries a non-zero interface index, the field \<open>in_dev\<close> with what
  the array \<open>name\<close> holds after the lookup, unless the JSON library rejects that text.
\<close>

definition flow_start_record :: "env \<Rightarrow> 'w::len Packet \<Rightarrow> json_t" where
  "flow_start_record e p =
     [(''event_type'', ''flow_start'')] @
     (if NFQ e \<and> nfq_v_ifi p \<noteq> 0
      then (case json_string e (name_after_lookup e (nfq_v_ifi p)) of
              None \<Rightarrow> []
            | Some v \<Rightarrow> [(''in_dev'', v)])
      else [])"

text \<open>
  The packets counted into a flow so far, as a number: the sum of the two counters
  without wrap-around.
\<close>

definition flow_total :: "'w::len Flow \<Rightarrow> nat" where
  "flow_total f = unat (todstpktcnt f) + unat (tosrcpktcnt f)"

text \<open>
  Along the successive views of one flow: neither counter ever decreases
  (\<open>counters_nondecreasing\<close>, the spec's words); the total grows with every packet
  (\<open>totals_increasing\<close>).
\<close>

fun counters_nondecreasing :: "'w::len Flow list \<Rightarrow> bool" where
  "counters_nondecreasing (f # g # fs) =
     (todstpktcnt f \<le> todstpktcnt g \<and> tosrcpktcnt f \<le> tosrcpktcnt g \<and>
      counters_nondecreasing (g # fs))"
| "counters_nondecreasing _ = True"

fun totals_increasing :: "'w::len Flow list \<Rightarrow> bool" where
  "totals_increasing (f # g # fs) = (flow_total f < flow_total g \<and> totals_increasing (g # fs))"
| "totals_increasing _ = True"

text \<open>No view of the flow has counters whose sum exceeds the counters' type.\<close>

definition no_wrap :: "'w::len Flow list \<Rightarrow> bool" where
  "no_wrap fs = list_all (\<lambda>f. flow_total f < 2 ^ LENGTH('w)) fs"

text \<open>The flow of the packet, when it has one, has counters whose sum fits their type.\<close>

definition sum_fits :: "'w::len Packet \<Rightarrow> bool" where
  "sum_fits p = (case flow p of None \<Rightarrow> True | Some f \<Rightarrow> flow_total f < 2 ^ LENGTH('w))"

subsection \<open>Concrete inputs\<close>

text \<open>
  An inline engine of an NFQ build, where only index 2 names an interface; the first and
  the second view of a flow; a view whose counters sum to \<open>2 ^ 32 + 1\<close>; a real
  packet on a flow, received on interface 2.
\<close>

definition ex_env :: env where
  "ex_env = \<lparr>EngineModeIsIPS = True, NFQ = True,
              if_indextoname = (\<lambda>i. if i = 2 then Some ''eth0'' else None),
              name_uninit = ''?'',
              json_string = Some,
              json_dumps = (\<lambda>j. concat (map (\<lambda>kv. fst kv @ ''='' @ snd kv @ '';'') j))\<rparr>"

definition ex_flow_wrap :: "32 Flow" where
  "ex_flow_wrap = \<lparr>todstpktcnt = 4294967295, tosrcpktcnt = 2\<rparr>"

definition ex_flow1 :: "32 Flow" where
  "ex_flow1 = \<lparr>todstpktcnt = 1, tosrcpktcnt = 0\<rparr>"

definition ex_flow2 :: "32 Flow" where
  "ex_flow2 = \<lparr>todstpktcnt = 1, tosrcpktcnt = 1\<rparr>"

definition ex_packet :: "32 Flow \<Rightarrow> 32 Packet" where
  "ex_packet f = \<lparr>pseudo = False, flow = Some f, nfq_v_ifi = 2\<rparr>"

text \<open>A real packet whose interface index, 7, names no interface.\<close>

definition ex_packet_no_if :: "32 Packet" where
  "ex_packet_no_if = \<lparr>pseudo = False, flow = Some ex_flow1, nfq_v_ifi = 7\<rparr>"

text \<open>
  A running standalone logger: the module context at address 0, its sink at 1, the
  output context at 2, a thread state at 3 and its buffer, which still holds the bytes
  of an earlier event, at 4. The outcomes of the next fallible calls are the argument.
\<close>

definition ex_world :: "bool list \<Rightarrow> world" where
  "ex_world outcomes =
     \<lparr>heap = (\<lambda>_. None)
        (0 \<mapsto> O_JsonFlowstartOutputCtx \<lparr>file_ctx = Some 1\<rparr>,
         1 \<mapsto> O_LogFileCtx \<lparr>filename = Some ''flowstart.json'', written = []\<rparr>,
         2 \<mapsto> O_OutputCtx \<lparr>data = Some 0, DeInit = Some FN_JsonFlowstartLogDeInitCtx\<rparr>,
         3 \<mapsto> O_JsonFlowstartLogThread \<lparr>flowstart_ctx = Some 0, buffer = Some 4\<rparr>,
         4 \<mapsto> O_MemBuffer \<lparr>mb_size = 65535, mb_bytes = ''stale''\<rparr>),
      brk = 5, script = outcomes, events = [], released = (\<lambda>_. None)\<rparr>"

text \<open>
  A sub-module logger beside its parent: the parent's context at 0 and its sink at 1, the
  sub-module's context, which borrows that sink, at 2 and its output context at 3.
\<close>

definition ex_world_sub :: world where
  "ex_world_sub =
     \<lparr>heap = (\<lambda>_. None)
        (0 \<mapsto> O_OutputJsonCtx \<lparr>ojc_file_ctx = Some 1\<rparr>,
         1 \<mapsto> O_LogFileCtx \<lparr>filename = Some ''eve.json'', written = []\<rparr>,
         2 \<mapsto> O_JsonFlowstartOutputCtx \<lparr>file_ctx = Some 1\<rparr>,
         3 \<mapsto> O_OutputCtx \<lparr>data = Some 2, DeInit = Some FN_JsonFlowstartLogDeInitCtxSub\<rparr>),
      brk = 4, script = [], events = [], released = (\<lambda>_. None)\<rparr>"

section \<open>Auxiliary facts\<close>

lemma load_Some: "load as w (Some a) = (case heap w a of None \<Rightarrow> None | Some x \<Rightarrow> as x)"
  by (simp add: load_def split: option.split)

lemma load_OutputCtx_D:
  "load as_OutputCtx w p = Some x \<Longrightarrow> \<exists>a. p = Some a \<and> heap w a = Some (O_OutputCtx x)"
  by (cases p)
    (auto simp: load_def split: option.splits Option.bind_splits elim: as_OutputCtx.elims)

lemma load_JsonFlowstartOutputCtx_D:
  "load as_JsonFlowstartOutputCtx w p = Some x \<Longrightarrow>
     \<exists>a. p = Some a \<and> heap w a = Some (O_JsonFlowstartOutputCtx x)"
  by (cases p)
    (auto simp: load_def split: option.splits Option.bind_splits
      elim: as_JsonFlowstartOutputCtx.elims)

lemma load_JsonFlowstartLogThread_D:
  "load as_JsonFlowstartLogThread w p = Some x \<Longrightarrow>
     \<exists>a. p = Some a \<and> heap w a = Some (O_JsonFlowstartLogThread x)"
  by (cases p)
    (auto simp: load_def split: option.splits Option.bind_splits
      elim: as_JsonFlowstartLogThread.elims)

lemma load_MemBuffer_D:
  "load as_MemBuffer w p = Some x \<Longrightarrow> \<exists>a. p = Some a \<and> heap w a = Some (O_MemBuffer x)"
  by (cases p)
    (auto simp: load_def split: option.splits Option.bind_splits elim: as_MemBuffer.elims)

lemma load_LogFileCtx_D:
  "load as_LogFileCtx w p = Some x \<Longrightarrow> \<exists>a. p = Some a \<and> heap w a = Some (O_LogFileCtx x)"
  by (cases p)
    (auto simp: load_def split: option.splits Option.bind_splits elim: as_LogFileCtx.elims)

text \<open>The script of outcomes: the next outcome, and the outcomes after a call.\<close>

lemma next_ok_outcome: "next_ok w = outcome w 0"
  by (cases "script w") (simp_all add: next_ok_def outcome_def)

lemma outcome_upd:
  "outcome (w\<lparr>heap := h\<rparr>) n = outcome w n"
  "outcome (w\<lparr>brk := k\<rparr>) n = outcome w n"
  "outcome (w\<lparr>events := evs\<rparr>) n = outcome w n"
  "outcome (w\<lparr>released := rel\<rparr>) n = outcome w n"
  by (simp_all add: outcome_def)

lemma outcome_script_tl:
  "outcome (w\<lparr>script := tl s\<rparr>) n = outcome (w\<lparr>script := s\<rparr>) (Suc n)"
  by (cases s) (simp_all add: outcome_def)

lemmas alloc_simps = new_obj_def next_ok_outcome consume_def outcome_upd outcome_script_tl
  load_Some store_def numeral_2_eq_2 numeral_3_eq_3

section \<open>The condition evaluator\<close>

text \<open>
  The evaluator never faults, and it accepts a packet exactly when the engine is inline,
  the packet is real, it has a flow, and the sum of the counters, computed in their
  type, is 1.
\<close>

lemma JsonFlowstartLogCondition_word_sum:
  "JsonFlowstartLogCondition e p =
     Some (EngineModeIsIPS e \<and> \<not> PKT_IS_PSEUDOPKT p \<and>
           (\<exists>f. flow p = Some f \<and> todstpktcnt f + tosrcpktcnt f = 1))"
  by (cases "flow p") (simp_all add: JsonFlowstartLogCondition_def flow_read_def)

lemma sum_not_one:
  fixes g :: "'w::len Flow"
  assumes "1 < flow_total g" and "flow_total g < 2 ^ LENGTH('w)"
  shows "todstpktcnt g + tosrcpktcnt g \<noteq> 1"
proof
  assume eq: "todstpktcnt g + tosrcpktcnt g = 1"
  have "unat (todstpktcnt g + tosrcpktcnt g) = flow_total g"
    using assms(2) by (simp add: flow_total_def unat_word_ariths)
  with eq have "flow_total g = 1" by simp
  with assms(1) show False by simp
qed

lemma sum_one:
  fixes f :: "'w::len Flow"
  assumes "flow_total f = 1"
  shows "todstpktcnt f + tosrcpktcnt f = 1"
proof -
  have "unat (todstpktcnt f + tosrcpktcnt f) =
          (unat (todstpktcnt f) + unat (tosrcpktcnt f)) mod 2 ^ LENGTH('w)"
    by (simp add: unat_word_ariths)
  also have "\<dots> = 1 mod 2 ^ LENGTH('w)"
    using assms by (simp add: flow_total_def)
  also have "\<dots> = unat (1 :: 'w word)"
    by simp
  finally show ?thesis
    by (simp only: word_unat_eq_iff)
qed

lemma sum_one_iff:
  fixes f :: "'w::len Flow"
  assumes "flow_total f < 2 ^ LENGTH('w)"
  shows "(todstpktcnt f + tosrcpktcnt f = 1) = (flow_total f = 1)"
proof
  assume eq: "todstpktcnt f + tosrcpktcnt f = 1"
  have "unat (todstpktcnt f + tosrcpktcnt f) = flow_total f"
    using assms by (simp add: flow_total_def unat_word_ariths)
  with eq show "flow_total f = 1" by simp
next
  assume "flow_total f = 1"
  then show "todstpktcnt f + tosrcpktcnt f = 1"
    by (rule sum_one)
qed

text \<open>
  C1, as the claim states it, fails: the code adds the counters in their own type. In
  inline mode, a real packet whose flow has the 32-bit counters 4294967295 and 2 is
  accepted, although the sum of its counters is 4294967297 and not 1.
\<close>

theorem wrapped_sum_is_accepted:
  "EngineModeIsIPS ex_env \<and>
   \<not> PKT_IS_PSEUDOPKT (ex_packet ex_flow_wrap) \<and>
   flow (ex_packet ex_flow_wrap) = Some ex_flow_wrap \<and>
   flow_total ex_flow_wrap = 4294967297 \<and>
   JsonFlowstartLogCondition ex_env (ex_packet ex_flow_wrap) = Some True"
  by (simp add: ex_env_def ex_flow_wrap_def ex_packet_def flow_total_def
      JsonFlowstartLogCondition_def flow_read_def PKT_IS_PSEUDOPKT_def)

text \<open>
  C1, amended. For every packet whose flow, when it has one, has counters whose sum
  fits their type, \<open>JsonFlowstartLogCondition\<close> returns true if and only if the
  engine is in inline (IPS) mode, the packet is not a pseudo packet, the packet has a
  non-null flow, and the sum of the flow's to-destination and to-source packet counters
  equals exactly 1; in every other case it returns false.
\<close>

theorem JsonFlowstartLogCondition_iff_total:
  assumes "sum_fits p"
  shows "JsonFlowstartLogCondition e p =
           Some (EngineModeIsIPS e \<and> \<not> PKT_IS_PSEUDOPKT p \<and>
                 (\<exists>f. flow p = Some f \<and> flow_total f = 1))"
proof (cases "flow p")
  case None
  then show ?thesis
    by (simp add: JsonFlowstartLogCondition_word_sum)
next
  case (Some f)
  with assms have "flow_total f < 2 ^ LENGTH('a)"
    by (simp add: sum_fits_def)
  then have "(todstpktcnt f + tosrcpktcnt f = 1) = (flow_total f = 1)"
    by (rule sum_one_iff)
  with Some show ?thesis
    by (simp add: JsonFlowstartLogCondition_word_sum)
qed

theorem JsonFlowstartLogCondition_iff_total_witness:
  "sum_fits (ex_packet ex_flow1) \<and>
   JsonFlowstartLogCondition ex_env (ex_packet ex_flow1) =
     Some (EngineModeIsIPS ex_env \<and> \<not> PKT_IS_PSEUDOPKT (ex_packet ex_flow1) \<and>
           (\<exists>f. flow (ex_packet ex_flow1) = Some f \<and> flow_total f = 1))"
proof -
  have h: "sum_fits (ex_packet ex_flow1)"
    by (simp add: sum_fits_def ex_packet_def ex_flow1_def flow_total_def)
  from h JsonFlowstartLogCondition_iff_total [OF h, of ex_env] show ?thesis
    by (rule conjI)
qed

text \<open>
  C10. For every packet whose flow reference is null, the condition evaluator returns
  false without reading the flow's counters: a read through the null reference would be
  a fault, and the evaluation ends with the value false, in every engine mode and
  whatever the packet's other fields are. The read of the counters stands behind the
  null test, so the evaluator faults on no packet at all.
\<close>

theorem JsonFlowstartLogCondition_null_flow:
  assumes "flow p = None"
  shows "flow_read todstpktcnt p = None \<and> flow_read tosrcpktcnt p = None \<and>
         JsonFlowstartLogCondition e p = Some False \<and>
         (\<forall>e' q. \<exists>b. JsonFlowstartLogCondition e' (q :: 'w::len Packet) = Some b)"
  using assms
  by (simp add: JsonFlowstartLogCondition_word_sum flow_read_def)

theorem JsonFlowstartLogCondition_null_flow_witness:
  "flow ((ex_packet ex_flow1)\<lparr>flow := None\<rparr>) = None \<and>
   (flow_read todstpktcnt ((ex_packet ex_flow1)\<lparr>flow := None\<rparr>) = None \<and>
    flow_read tosrcpktcnt ((ex_packet ex_flow1)\<lparr>flow := None\<rparr>) = None \<and>
    JsonFlowstartLogCondition ex_env ((ex_packet ex_flow1)\<lparr>flow := None\<rparr>) = Some False \<and>
    (\<forall>e' q. \<exists>b. JsonFlowstartLogCondition e' (q :: 32 Packet) = Some b))"
proof -
  have h: "flow ((ex_packet ex_flow1)\<lparr>flow := None\<rparr>) = None"
    by simp
  from h JsonFlowstartLogCondition_null_flow [OF h, of ex_env] show ?thesis
    by (rule conjI)
qed

subsection \<open>One event per flow\<close>

lemma totals_increasing_later:
  "totals_increasing (f # fs) \<Longrightarrow> g \<in> set fs \<Longrightarrow> flow_total f < flow_total g"
proof (induction fs arbitrary: f)
  case Nil
  then show ?case by simp
next
  case (Cons h hs)
  then show ?case by (auto dest: less_trans)
qed

lemma later_packets_rejected:
  fixes qs :: "'w::len Packet list"
  assumes "map flow qs = map Some fs"
    and "\<forall>g\<in>set fs. 1 < flow_total g \<and> flow_total g < 2 ^ LENGTH('w)"
  shows "map (JsonFlowstartLogCondition e) qs = replicate (length fs) (Some False)"
  using assms
proof (induction qs arbitrary: fs)
  case Nil
  then show ?case by simp
next
  case (Cons q qs)
  then obtain g gs where fs: "fs = g # gs" and q: "flow q = Some g"
    and rest: "map flow qs = map Some gs"
    by (cases fs) auto
  from Cons.prems(2) fs have "todstpktcnt g + tosrcpktcnt g \<noteq> 1"
    by (simp add: sum_not_one)
  with q have "JsonFlowstartLogCondition e q = Some False"
    by (simp add: JsonFlowstartLogCondition_word_sum)
  moreover have "map (JsonFlowstartLogCondition e) qs = replicate (length gs) (Some False)"
    using Cons.IH [OF rest] Cons.prems(2) fs by simp
  ultimately show ?case using fs by simp
qed

text \<open>
  C5, as the claim states it, fails: counters that never decrease may also stand still.
  In inline mode, two real packets that both see the counters (1, 0) are both accepted.
\<close>

theorem nondecreasing_counters_fire_twice:
  "EngineModeIsIPS ex_env \<and>
   counters_nondecreasing [ex_flow1, ex_flow1] \<and>
   flow_total ex_flow1 = 1 \<and>
   map (JsonFlowstartLogCondition ex_env) [ex_packet ex_flow1, ex_packet ex_flow1] =
     [Some True, Some True]"
  by (simp add: ex_env_def ex_flow1_def ex_packet_def flow_total_def
      JsonFlowstartLogCondition_def flow_read_def PKT_IS_PSEUDOPKT_def)

text \<open>
  C5, amended. In inline mode, let the packets \<open>ps\<close> be delivered on one flow, whose
  counters they see as \<open>f # fs\<close>. If the first packet is a real packet and sees the
  total 1, the total grows from every packet to the next, and the sum of the counters
  never exceeds their type, then the condition evaluator returns true for the first
  packet and false for every later one.
\<close>

theorem first_packet_only:
  fixes ps :: "'w::len Packet list"
  assumes "EngineModeIsIPS e"
    and "map flow ps = map Some (f # fs)"
    and "\<not> PKT_IS_PSEUDOPKT (hd ps)"
    and "flow_total f = 1"
    and "totals_increasing (f # fs)"
    and "no_wrap fs"
  shows "map (JsonFlowstartLogCondition e) ps =
           Some True # replicate (length fs) (Some False)"
proof -
  from assms(2) obtain p qs where ps: "ps = p # qs" and p: "flow p = Some f"
    and rest: "map flow qs = map Some fs"
    by (cases ps) auto
  have "JsonFlowstartLogCondition e p = Some True"
    using assms(1,3,4) p ps by (simp add: JsonFlowstartLogCondition_word_sum sum_one)
  moreover have "\<forall>g\<in>set fs. 1 < flow_total g \<and> flow_total g < 2 ^ LENGTH('w)"
    using assms(4,5,6) totals_increasing_later [of f fs]
    by (auto simp: no_wrap_def list_all_iff)
  then have "map (JsonFlowstartLogCondition e) qs = replicate (length fs) (Some False)"
    by (rule later_packets_rejected [OF rest])
  ultimately show ?thesis using ps by simp
qed

theorem first_packet_only_witness:
  "EngineModeIsIPS ex_env \<and>
   map flow [ex_packet ex_flow1, ex_packet ex_flow2] = map Some [ex_flow1, ex_flow2] \<and>
   \<not> PKT_IS_PSEUDOPKT (hd [ex_packet ex_flow1, ex_packet ex_flow2]) \<and>
   flow_total ex_flow1 = 1 \<and>
   totals_increasing [ex_flow1, ex_flow2] \<and>
   no_wrap [ex_flow2] \<and>
   map (JsonFlowstartLogCondition ex_env) [ex_packet ex_flow1, ex_packet ex_flow2] =
     Some True # replicate (length [ex_flow2]) (Some False)"
proof -
  have h1: "EngineModeIsIPS ex_env"
    by (simp add: ex_env_def)
  have h2: "map flow [ex_packet ex_flow1, ex_packet ex_flow2] = map Some [ex_flow1, ex_flow2]"
    by (simp add: ex_packet_def)
  have h3: "\<not> PKT_IS_PSEUDOPKT (hd [ex_packet ex_flow1, ex_packet ex_flow2])"
    by (simp add: ex_packet_def PKT_IS_PSEUDOPKT_def)
  have h4: "flow_total ex_flow1 = 1"
    by (simp add: ex_flow1_def flow_total_def)
  have h5: "totals_increasing [ex_flow1, ex_flow2]"
    by (simp add: ex_flow1_def ex_flow2_def flow_total_def)
  have h6: "no_wrap [ex_flow2]"
    by (simp add: ex_flow2_def flow_total_def no_wrap_def)
  from h1 h2 h3 h4 h5 h6 first_packet_only [OF h1 h2 h3 h4 h5 h6] show ?thesis
    by (intro conjI)
qed

section \<open>Emission\<close>

lemma FlowstartLogJSON_no_header:
  "\<not> outcome w 0 \<Longrightarrow>
     FlowstartLogJSON e aft p w = Some (TmEcode_int TM_ECODE_OK, consume w)"
  by (simp add: FlowstartLogJSON_def CreateJSONHeader_def new_obj_def next_ok_outcome)

text \<open>
  What one emission does to a usable thread state when the header is built: the record
  alone ends up in the buffer, and in the sink when the write succeeds; the JSON object
  is gone again; the status is \<open>TM_ECODE_OK\<close> whether the write succeeds or not.
\<close>

lemma FlowstartLogJSON_emits:
  fixes p :: "'w::len Packet"
  assumes t: "heap w aft = Some (O_JsonFlowstartLogThread t)"
    and b: "buffer t = Some ba" "heap w ba = Some (O_MemBuffer b)"
    and c: "flowstart_ctx t = Some ca" "heap w ca = Some (O_JsonFlowstartOutputCtx c)"
    and l: "file_ctx c = Some s" "heap w s = Some (O_LogFileCtx l)"
    and fresh: "heap w (brk w) = None"
    and header: "outcome w 0"
  shows "FlowstartLogJSON e (Some aft) p w =
           Some (0, w\<lparr>heap := (heap w)
                     (ba \<mapsto> O_MemBuffer
                        \<lparr>mb_size = max (mb_size b) (length (json_dumps e (flow_start_record e p))),
                         mb_bytes = json_dumps e (flow_start_record e p)\<rparr>,
                      s \<mapsto> O_LogFileCtx (l\<lparr>written := written l @
                        (if outcome w 1 then [json_dumps e (flow_start_record e p)] else [])\<rparr>)),
                   brk := Suc (brk w),
                   script := tl (tl (script w))\<rparr>)"
proof -
  from t b c l fresh have ne: "brk w \<noteq> aft" "brk w \<noteq> ba" "brk w \<noteq> ca" "brk w \<noteq> s"
    "aft \<noteq> ba" "aft \<noteq> ca" "aft \<noteq> s" "ba \<noteq> ca" "ba \<noteq> s" "ca \<noteq> s"
    by auto
  have hdr: "CreateJSONHeader p 0 ''flow_start'' w =
      (Some (brk w),
       w\<lparr>script := tl (script w),
         heap := (heap w)(brk w \<mapsto> O_json [(''event_type'', ''flow_start'')]),
         brk := Suc (brk w)\<rparr>)"
    using header by (simp add: CreateJSONHeader_def alloc_simps)
  show ?thesis
    unfolding FlowstartLogJSON_def hdr
    using t b c l fresh ne
    by (auto simp: json_object_set_new_def MemBufferReset_def OutputJSONBuffer_def
      json_object_clear_def json_decref_def alloc_simps flow_start_record_def
      Let_def fun_eq_iff split: option.splits)
qed

lemma thread_okD:
  assumes "thread_ok w aft"
  obtains a t ba b ca c s l where
    "aft = Some a" "heap w a = Some (O_JsonFlowstartLogThread t)"
    "buffer t = Some ba" "heap w ba = Some (O_MemBuffer b)"
    "flowstart_ctx t = Some ca" "heap w ca = Some (O_JsonFlowstartOutputCtx c)"
    "file_ctx c = Some s" "heap w s = Some (O_LogFileCtx l)"
proof -
  from assms obtain t b c l where
    "load as_JsonFlowstartLogThread w aft = Some t"
    "load as_MemBuffer w (buffer t) = Some b"
    "load as_JsonFlowstartOutputCtx w (flowstart_ctx t) = Some c"
    "load as_LogFileCtx w (file_ctx c) = Some l"
    by (auto simp: thread_ok_def split: option.splits)
  then show ?thesis
    using that
    by (blast dest: load_JsonFlowstartLogThread_D load_MemBuffer_D
        load_JsonFlowstartOutputCtx_D load_LogFileCtx_D)
qed

text \<open>
  C3. If the header construction fails (\<open>CreateJSONHeader\<close> returns null), then
  \<open>FlowstartLogJSON\<close> returns \<open>TM_ECODE_OK\<close>, which is 0, and leaves the store as
  it was: nothing is written to the sink and the scratch buffer is not touched (only the
  failed outcome is consumed). The next packet is therefore processed as if the failed
  one had not been logged.
\<close>

theorem FlowstartLogJSON_header_failure:
  assumes "fst (CreateJSONHeader p 0 ''flow_start'' w) = None"
  shows "FlowstartLogJSON e aft p w = Some (TmEcode_int TM_ECODE_OK, consume w) \<and>
         TmEcode_int TM_ECODE_OK = 0 \<and>
         heap (consume w) = heap w \<and>
         events (consume w) = events w \<and>
         do { (r, w1) \<leftarrow> FlowstartLogJSON e aft p w; FlowstartLogJSON e aft q w1 } =
           FlowstartLogJSON e aft q (consume w)"
proof -
  from assms have "\<not> outcome w 0"
    by (simp add: CreateJSONHeader_def new_obj_def next_ok_outcome split: if_splits)
  then have "FlowstartLogJSON e aft p w = Some (TmEcode_int TM_ECODE_OK, consume w)"
    by (rule FlowstartLogJSON_no_header)
  then show ?thesis
    by (simp add: consume_def)
qed

theorem FlowstartLogJSON_header_failure_witness:
  "fst (CreateJSONHeader (ex_packet ex_flow1) 0 ''flow_start'' (ex_world [False])) = None \<and>
   (FlowstartLogJSON ex_env (Some 3) (ex_packet ex_flow1) (ex_world [False]) =
      Some (TmEcode_int TM_ECODE_OK, consume (ex_world [False])) \<and>
    TmEcode_int TM_ECODE_OK = 0 \<and>
    heap (consume (ex_world [False])) = heap (ex_world [False]) \<and>
    events (consume (ex_world [False])) = events (ex_world [False]) \<and>
    do { (r, w1) \<leftarrow> FlowstartLogJSON ex_env (Some 3) (ex_packet ex_flow1) (ex_world [False]);
         FlowstartLogJSON ex_env (Some 3) (ex_packet ex_flow1) w1 } =
      FlowstartLogJSON ex_env (Some 3) (ex_packet ex_flow1) (consume (ex_world [False])))"
proof -
  have h: "fst (CreateJSONHeader (ex_packet ex_flow1) 0 ''flow_start'' (ex_world [False])) = None"
    by (simp add: CreateJSONHeader_def new_obj_def next_ok_def ex_world_def)
  from h FlowstartLogJSON_header_failure [OF h] show ?thesis
    by (rule conjI)
qed

text \<open>
  C4, as the claim states it, fails: when the sink write reports an I/O failure
  (\<open>OutputJSONBuffer\<close> returns -1 in the state the emission calls it in), the logging
  entry point still returns 0, because \<open>FlowstartLogJSON\<close> drops that status.
\<close>

theorem JsonFlowstartLogger_hides_write_failure:
  "map_option fst
     (OutputJSONBuffer ex_env (Some 5) (Some 1) (Some 4)
        (the (MemBufferReset (Some 4)
           (the (json_object_set_new (Some 5) ''in_dev'' (Some ''eth0'')
              (snd (CreateJSONHeader (ex_packet ex_flow1) 0 ''flow_start''
                 (ex_world [True, False])))))))) = Some (- 1) \<and>
   map_option fst
     (JsonFlowstartLogger ex_env (Some 3) (ex_packet ex_flow1) (ex_world [True, False])) = Some 0"
  by (simp add: JsonFlowstartLogger_def FlowstartLogJSON_def CreateJSONHeader_def
      json_object_set_new_def MemBufferReset_def OutputJSONBuffer_def json_object_clear_def
      json_decref_def new_obj_def next_ok_def consume_def load_Some store_def
      name_after_lookup_def ex_world_def ex_env_def ex_packet_def Let_def)

text \<open>
  C4, amended. On a usable thread state (and with the next address unused), the logging
  entry point \<open>JsonFlowstartLogger\<close> returns and reports success (0) for every
  emission, whether the header is built or not and whether the sink write succeeds or
  reports a failure; it never returns -1.
\<close>

theorem JsonFlowstartLogger_always_0:
  assumes "thread_ok w aft" and "heap w (brk w) = None"
  shows "\<exists>w'. JsonFlowstartLogger e aft p w = Some (0, w')"
proof (cases "outcome w 0")
  case False
  then show ?thesis
    by (simp add: JsonFlowstartLogger_def FlowstartLogJSON_no_header)
next
  case True
  from assms(1) obtain a t ba b ca c s l where
    "aft = Some a" "heap w a = Some (O_JsonFlowstartLogThread t)"
    "buffer t = Some ba" "heap w ba = Some (O_MemBuffer b)"
    "flowstart_ctx t = Some ca" "heap w ca = Some (O_JsonFlowstartOutputCtx c)"
    "file_ctx c = Some s" "heap w s = Some (O_LogFileCtx l)"
    by (rule thread_okD)
  then show ?thesis
    using FlowstartLogJSON_emits [of w a t ba b ca c s l e p] assms(2) True
    by (simp add: JsonFlowstartLogger_def)
qed

theorem JsonFlowstartLogger_always_0_witness:
  "thread_ok (ex_world [True, False]) (Some 3) \<and>
   heap (ex_world [True, False]) (brk (ex_world [True, False])) = None \<and>
   (\<exists>w'. JsonFlowstartLogger ex_env (Some 3) (ex_packet ex_flow1) (ex_world [True, False]) =
            Some (0, w'))"
proof -
  have h1: "thread_ok (ex_world [True, False]) (Some 3)"
    by (simp add: thread_ok_def load_Some ex_world_def)
  have h2: "heap (ex_world [True, False]) (brk (ex_world [True, False])) = None"
    by (simp add: ex_world_def)
  from h1 h2 JsonFlowstartLogger_always_0 [OF h1 h2] show ?thesis
    by (intro conjI)
qed

text \<open>
  C9. On every emission that builds its record (on a usable thread state, the next
  address unused), the scratch buffer is reset before the record is serialised:
  whatever the buffer held before and whatever the interface lookup of an NFQ build
  puts into the record, after the emission the buffer holds
  the bytes of this record alone, and the sink, when the write succeeds, has received
  exactly these bytes. The reset empties the buffer and retains its capacity, and the
  capacity after the emission is not below the capacity before it.
\<close>

theorem FlowstartLogJSON_resets_buffer:
  assumes "load as_JsonFlowstartLogThread w aft = Some t"
    and "load as_MemBuffer w (buffer t) = Some b"
    and "load as_JsonFlowstartOutputCtx w (flowstart_ctx t) = Some c"
    and "load as_LogFileCtx w (file_ctx c) = Some l"
    and "heap w (brk w) = None"
    and "outcome w 0"
  shows "\<exists>w' ba b' l'.
           FlowstartLogJSON e aft p w = Some (0, w') \<and>
           buffer t = Some ba \<and>
           MemBufferReset (Some ba) w =
             Some (store ba (O_MemBuffer \<lparr>mb_size = mb_size b, mb_bytes = []\<rparr>) w) \<and>
           load as_MemBuffer w' (Some ba) = Some b' \<and>
           mb_bytes b' = json_dumps e (flow_start_record e p) \<and>
           mb_size b \<le> mb_size b' \<and>
           load as_LogFileCtx w' (file_ctx c) = Some l' \<and>
           written l' = written l @
             (if outcome w 1 then [json_dumps e (flow_start_record e p)] else [])"
proof -
  from assms(1) obtain a where a: "aft = Some a" "heap w a = Some (O_JsonFlowstartLogThread t)"
    by (blast dest: load_JsonFlowstartLogThread_D)
  from assms(2) obtain ba where ba: "buffer t = Some ba" "heap w ba = Some (O_MemBuffer b)"
    by (blast dest: load_MemBuffer_D)
  from assms(3) obtain ca where ca: "flowstart_ctx t = Some ca"
    "heap w ca = Some (O_JsonFlowstartOutputCtx c)"
    by (blast dest: load_JsonFlowstartOutputCtx_D)
  from assms(4) obtain s where s: "file_ctx c = Some s" "heap w s = Some (O_LogFileCtx l)"
    by (blast dest: load_LogFileCtx_D)
  from ba s have ne: "ba \<noteq> s"
    by auto
  have reset: "MemBufferReset (Some ba) w =
      Some (store ba (O_MemBuffer \<lparr>mb_size = mb_size b, mb_bytes = []\<rparr>) w)"
    using ba by (cases b) (simp add: MemBufferReset_def load_Some)
  show ?thesis
    using FlowstartLogJSON_emits [OF a(2) ba ca s assms(5,6), of e p] a(1) ba(1) s(1) ne reset
    by (simp add: load_Some)
qed

theorem FlowstartLogJSON_resets_buffer_witness:
  "load as_JsonFlowstartLogThread (ex_world []) (Some 3) =
     Some \<lparr>flowstart_ctx = Some 0, buffer = Some 4\<rparr> \<and>
   load as_MemBuffer (ex_world []) (Some 4) = Some \<lparr>mb_size = 65535, mb_bytes = ''stale''\<rparr> \<and>
   load as_JsonFlowstartOutputCtx (ex_world []) (Some 0) = Some \<lparr>file_ctx = Some 1\<rparr> \<and>
   load as_LogFileCtx (ex_world []) (Some 1) =
     Some \<lparr>filename = Some ''flowstart.json'', written = []\<rparr> \<and>
   heap (ex_world []) (brk (ex_world [])) = None \<and>
   outcome (ex_world []) 0 \<and>
   (\<exists>w' b' l'.
      FlowstartLogJSON ex_env (Some 3) ex_packet_no_if (ex_world []) = Some (0, w') \<and>
      load as_MemBuffer w' (Some 4) = Some b' \<and>
      mb_bytes b' = ''event_type=flow_start;in_dev=?;'' \<and>
      65535 \<le> mb_size b' \<and>
      load as_LogFileCtx w' (Some 1) = Some l' \<and>
      written l' = [''event_type=flow_start;in_dev=?;''])"
proof -
  have h1: "load as_JsonFlowstartLogThread (ex_world []) (Some 3) =
      Some \<lparr>flowstart_ctx = Some 0, buffer = Some 4\<rparr>"
    by (simp add: load_Some ex_world_def)
  have h2: "load as_MemBuffer (ex_world [])
      (buffer \<lparr>flowstart_ctx = Some 0, buffer = Some 4\<rparr>) =
      Some \<lparr>mb_size = 65535, mb_bytes = ''stale''\<rparr>"
    by (simp add: load_Some ex_world_def)
  have h3: "load as_JsonFlowstartOutputCtx (ex_world [])
      (flowstart_ctx \<lparr>flowstart_ctx = Some 0, buffer = Some 4\<rparr>) = Some \<lparr>file_ctx = Some 1\<rparr>"
    by (simp add: load_Some ex_world_def)
  have h4: "load as_LogFileCtx (ex_world []) (file_ctx \<lparr>file_ctx = Some 1\<rparr>) =
      Some \<lparr>filename = Some ''flowstart.json'', written = []\<rparr>"
    by (simp add: load_Some ex_world_def)
  have h5: "heap (ex_world []) (brk (ex_world [])) = None"
    by (simp add: ex_world_def)
  have h6: "outcome (ex_world []) 0"
    by (simp add: outcome_def ex_world_def)
  have o1: "outcome (ex_world []) 1"
    by (simp add: outcome_def ex_world_def)
  have bytes: "json_dumps ex_env (flow_start_record ex_env ex_packet_no_if) =
      ''event_type=flow_start;in_dev=?;''"
    by (simp add: ex_env_def flow_start_record_def name_after_lookup_def ex_packet_no_if_def)
  from FlowstartLogJSON_resets_buffer [OF h1 h2 h3 h4 h5 h6, of ex_env ex_packet_no_if]
  have "\<exists>w' b' l'.
      FlowstartLogJSON ex_env (Some 3) ex_packet_no_if (ex_world []) = Some (0, w') \<and>
      load as_MemBuffer w' (Some 4) = Some b' \<and>
      mb_bytes b' = ''event_type=flow_start;in_dev=?;'' \<and>
      65535 \<le> mb_size b' \<and>
      load as_LogFileCtx w' (Some 1) = Some l' \<and>
      written l' = [''event_type=flow_start;in_dev=?;'']"
    using o1 bytes by auto
  with h1 h2 h3 h4 h5 h6 show ?thesis
    by simp
qed

section \<open>Thread-local state\<close>

text \<open>
  C6. Given construction data that is null or leads to an output context (and the next
  two addresses unused), \<open>JsonFlowstartLogThreadInit\<close> returns, and it returns
  \<open>TM_ECODE_FAILED\<close> exactly when the construction data is null, the allocation of the state fails or the
  allocation of the scratch buffer fails. On failure the out-parameter is not written
  and the store is what it was before the call: nothing stays allocated. On success it
  returns \<open>TM_ECODE_OK\<close> and hands out a new state whose buffer is empty with
  capacity 65535 and whose context is the one of the supplied output context.
\<close>

theorem JsonFlowstartLogThreadInit_result:
  assumes fresh: "heap w (brk w) = None" "heap w (Suc (brk w)) = None"
    and valid: "initdata = None \<or> load as_OutputCtx w initdata = Some oc"
  shows "\<exists>r d w'. JsonFlowstartLogThreadInit initdata data_p w = Some ((r, d), w') \<and>
           (r = TM_ECODE_FAILED) = (initdata = None \<or> \<not> outcome w 0 \<or> \<not> outcome w 1) \<and>
           (if r = TM_ECODE_FAILED
            then d = data_p \<and> heap w' = heap w
            else r = TM_ECODE_OK \<and> d = Some (brk w) \<and>
                 heap w' = (heap w)
                   (brk w \<mapsto> O_JsonFlowstartLogThread
                      \<lparr>flowstart_ctx = data oc, buffer = Some (Suc (brk w))\<rparr>,
                    Suc (brk w) \<mapsto> O_MemBuffer \<lparr>mb_size = 65535, mb_bytes = []\<rparr>))"
proof (cases "outcome w 0")
  case False
  then show ?thesis
    by (simp add: JsonFlowstartLogThreadInit_def SCMalloc_def alloc_simps)
next
  case o0: True
  show ?thesis
  proof (cases initdata)
    case None
    with o0 fresh show ?thesis
      by (auto simp: JsonFlowstartLogThreadInit_def SCMalloc_def alloc_simps
          memset_JsonFlowstartLogThread_def SCFree_def fun_eq_iff)
  next
    case (Some a)
    with valid have h: "heap w a = Some (O_OutputCtx oc)"
      by (auto dest: load_OutputCtx_D)
    with fresh have ne: "a \<noteq> brk w" "a \<noteq> Suc (brk w)"
      by auto
    show ?thesis
    proof (cases "outcome w (Suc 0)")
      case True
      with o0 Some h ne fresh show ?thesis
        by (auto simp: JsonFlowstartLogThreadInit_def SCMalloc_def alloc_simps
          memset_JsonFlowstartLogThread_def MemBufferCreateNew_def
          OUTPUT_BUFFER_SIZE_def fun_eq_iff)
    next
      case False
      with o0 Some h ne fresh show ?thesis
        by (auto simp: JsonFlowstartLogThreadInit_def SCMalloc_def alloc_simps
          memset_JsonFlowstartLogThread_def MemBufferCreateNew_def
          SCFree_def fun_eq_iff)
    qed
  qed
qed

theorem JsonFlowstartLogThreadInit_result_witness:
  "heap (ex_world [True, False]) (brk (ex_world [True, False])) = None \<and>
   heap (ex_world [True, False]) (Suc (brk (ex_world [True, False]))) = None \<and>
   (Some 2 = None \<or>
    load as_OutputCtx (ex_world [True, False]) (Some 2) =
      Some \<lparr>data = Some 0, DeInit = Some FN_JsonFlowstartLogDeInitCtx\<rparr>) \<and>
   (\<exists>w'. JsonFlowstartLogThreadInit (Some 2) None (ex_world [True, False]) =
            Some ((TM_ECODE_FAILED, None), w') \<and>
          heap w' = heap (ex_world [True, False]))"
proof -
  have h1: "heap (ex_world [True, False]) (brk (ex_world [True, False])) = None"
    by (simp add: ex_world_def)
  have h2: "heap (ex_world [True, False]) (Suc (brk (ex_world [True, False]))) = None"
    by (simp add: ex_world_def)
  have h3: "Some 2 = None \<or>
      load as_OutputCtx (ex_world [True, False]) (Some 2) =
        Some \<lparr>data = Some 0, DeInit = Some FN_JsonFlowstartLogDeInitCtx\<rparr>"
    by (simp add: load_Some ex_world_def)
  have o: "outcome (ex_world [True, False]) 0" "\<not> outcome (ex_world [True, False]) 1"
    by (simp_all add: outcome_def ex_world_def)
  from JsonFlowstartLogThreadInit_result [OF h1 h2 h3, of None] o
  have "\<exists>w'. JsonFlowstartLogThreadInit (Some 2) None (ex_world [True, False]) =
            Some ((TM_ECODE_FAILED, None), w') \<and>
          heap w' = heap (ex_world [True, False])"
    by (auto split: if_splits)
  with h1 h2 h3 show ?thesis
    by blast
qed

text \<open>
  C7. \<open>JsonFlowstartLogThreadDeinit\<close> on a null state does nothing and returns
  \<open>TM_ECODE_OK\<close>, in every state of the store. On a state with its scratch buffer
  it frees the buffer, zeroes the state, frees the state, in this order and each once,
  and returns \<open>TM_ECODE_OK\<close>: the block of the state is handed back holding null
  pointers only, and nothing else in the store changes.
\<close>

theorem JsonFlowstartLogThreadDeinit_effect:
  "JsonFlowstartLogThreadDeinit None w = Some (TM_ECODE_OK, w) \<and>
   (load as_JsonFlowstartLogThread v (Some aft) = Some t \<and> buffer t = Some b \<and>
    load as_MemBuffer v (Some b) = Some m \<longrightarrow>
      JsonFlowstartLogThreadDeinit (Some aft) v =
        Some (TM_ECODE_OK,
              v\<lparr>heap := (heap v)(b := None, aft := None),
                events := events v @ [EvFree b, EvMemset aft, EvFree aft],
                released := (released v)
                  (b \<mapsto> O_MemBuffer m,
                   aft \<mapsto> O_JsonFlowstartLogThread \<lparr>flowstart_ctx = None, buffer = None\<rparr>)\<rparr>))"
proof (intro conjI impI)
  show "JsonFlowstartLogThreadDeinit None w = Some (TM_ECODE_OK, w)"
    by (simp add: JsonFlowstartLogThreadDeinit_def)
next
  assume a: "load as_JsonFlowstartLogThread v (Some aft) = Some t \<and> buffer t = Some b \<and>
    load as_MemBuffer v (Some b) = Some m"
  then have h1: "heap v aft = Some (O_JsonFlowstartLogThread t)"
    by (auto dest: load_JsonFlowstartLogThread_D)
  from a have h2: "heap v b = Some (O_MemBuffer m)"
    by (auto dest: load_MemBuffer_D)
  from h1 h2 have ne: "aft \<noteq> b" by auto
  show "JsonFlowstartLogThreadDeinit (Some aft) v =
        Some (TM_ECODE_OK,
              v\<lparr>heap := (heap v)(b := None, aft := None),
                events := events v @ [EvFree b, EvMemset aft, EvFree aft],
                released := (released v)
                  (b \<mapsto> O_MemBuffer m,
                   aft \<mapsto> O_JsonFlowstartLogThread \<lparr>flowstart_ctx = None, buffer = None\<rparr>)\<rparr>)"
    using h1 h2 ne a
    by (simp add: JsonFlowstartLogThreadDeinit_def MemBufferFree_def SCFree_def load_Some
        memset_JsonFlowstartLogThread_def store_def)
qed

theorem JsonFlowstartLogThreadDeinit_effect_witness:
  "JsonFlowstartLogThreadDeinit None (ex_world [False]) = Some (TM_ECODE_OK, ex_world [False]) \<and>
   load as_JsonFlowstartLogThread (ex_world []) (Some 3) =
     Some \<lparr>flowstart_ctx = Some 0, buffer = Some 4\<rparr> \<and>
   buffer \<lparr>flowstart_ctx = Some 0, buffer = Some 4\<rparr> = Some 4 \<and>
   load as_MemBuffer (ex_world []) (Some 4) = Some \<lparr>mb_size = 65535, mb_bytes = ''stale''\<rparr> \<and>
   JsonFlowstartLogThreadDeinit (Some 3) (ex_world []) =
     Some (TM_ECODE_OK,
           (ex_world [])\<lparr>heap := (heap (ex_world []))(4 := None, 3 := None),
             events := events (ex_world []) @ [EvFree 4, EvMemset 3, EvFree 3],
             released := (released (ex_world []))
               (4 \<mapsto> O_MemBuffer \<lparr>mb_size = 65535, mb_bytes = ''stale''\<rparr>,
                3 \<mapsto> O_JsonFlowstartLogThread \<lparr>flowstart_ctx = None, buffer = None\<rparr>)\<rparr>)"
proof -
  have h1: "load as_JsonFlowstartLogThread (ex_world []) (Some 3) =
      Some \<lparr>flowstart_ctx = Some 0, buffer = Some 4\<rparr>"
    by (simp add: load_Some ex_world_def)
  have h2: "buffer \<lparr>flowstart_ctx = Some 0, buffer = Some 4\<rparr> = Some 4"
    by simp
  have h3: "load as_MemBuffer (ex_world []) (Some 4) =
      Some \<lparr>mb_size = 65535, mb_bytes = ''stale''\<rparr>"
    by (simp add: load_Some ex_world_def)
  note inst = JsonFlowstartLogThreadDeinit_effect
    [of "ex_world [False]" "ex_world []" 3 "\<lparr>flowstart_ctx = Some 0, buffer = Some 4\<rparr>" 4
        "\<lparr>mb_size = 65535, mb_bytes = ''stale''\<rparr>"]
  from inst have "JsonFlowstartLogThreadDeinit None (ex_world [False]) =
      Some (TM_ECODE_OK, ex_world [False])"
    by (rule conjunct1)
  moreover from inst h1 h2 h3 have "JsonFlowstartLogThreadDeinit (Some 3) (ex_world []) =
     Some (TM_ECODE_OK,
           (ex_world [])\<lparr>heap := (heap (ex_world []))(4 := None, 3 := None),
             events := events (ex_world []) @ [EvFree 4, EvMemset 3, EvFree 3],
             released := (released (ex_world []))
               (4 \<mapsto> O_MemBuffer \<lparr>mb_size = 65535, mb_bytes = ''stale''\<rparr>,
                3 \<mapsto> O_JsonFlowstartLogThread \<lparr>flowstart_ctx = None, buffer = None\<rparr>)\<rparr>)"
    by blast
  ultimately show ?thesis
    using h1 h2 h3 by blast
qed

section \<open>Output contexts\<close>

lemma DeInitCtx_effect:
  assumes "load as_OutputCtx w (Some oc) = Some x" and "data x = Some fc"
    and "load as_JsonFlowstartOutputCtx w (Some fc) = Some c" and "file_ctx c = Some s"
    and "load as_LogFileCtx w (Some s) = Some l"
  shows "JsonFlowstartLogDeInitCtx (Some oc) w =
           Some (w\<lparr>heap := (heap w)(s := None, fc := None, oc := None),
                   events := events w @ [EvLogFileFreeCtx s, EvFree fc, EvFree oc],
                   released := (released w)
                     (fc \<mapsto> O_JsonFlowstartOutputCtx c, oc \<mapsto> O_OutputCtx x)\<rparr>)"
proof -
  from assms(1) have h1: "heap w oc = Some (O_OutputCtx x)"
    by (auto dest: load_OutputCtx_D)
  from assms(3) have h2: "heap w fc = Some (O_JsonFlowstartOutputCtx c)"
    by (auto dest: load_JsonFlowstartOutputCtx_D)
  from assms(5) have h3: "heap w s = Some (O_LogFileCtx l)"
    by (auto dest: load_LogFileCtx_D)
  from h1 h2 h3 have ne: "oc \<noteq> fc" "oc \<noteq> s" "fc \<noteq> s"
    by auto
  show ?thesis
    using h1 h2 h3 ne assms(2,4)
    by (simp add: JsonFlowstartLogDeInitCtx_def JsonFlowstartOutputCtxFree_def
        LogFileFreeCtx_def SCFree_def load_Some)
qed

lemma DeInitCtxSub_effect:
  assumes "load as_OutputCtx w (Some oc) = Some x" and "data x = Some fc"
    and "load as_JsonFlowstartOutputCtx w (Some fc) = Some c"
  shows "JsonFlowstartLogDeInitCtxSub (Some oc) w =
           Some (w\<lparr>heap := (heap w)(fc := None, oc := None),
                   events := events w @ [EvFree fc, EvFree oc],
                   released := (released w)
                     (fc \<mapsto> O_JsonFlowstartOutputCtx c, oc \<mapsto> O_OutputCtx x)\<rparr>)"
proof -
  from assms(1) have h1: "heap w oc = Some (O_OutputCtx x)"
    by (auto dest: load_OutputCtx_D)
  from assms(3) have h2: "heap w fc = Some (O_JsonFlowstartOutputCtx c)"
    by (auto dest: load_JsonFlowstartOutputCtx_D)
  from h1 h2 have ne: "oc \<noteq> fc"
    by auto
  show ?thesis
    using h1 h2 ne assms(2)
    by (simp add: JsonFlowstartLogDeInitCtxSub_def SCFree_def load_Some)
qed

text \<open>
  C2. Destroying a standalone context with \<open>JsonFlowstartLogDeInitCtx\<close> destroys its
  sink exactly once and frees the two context structures. Destroying a sub-module
  context with \<open>JsonFlowstartLogDeInitCtxSub\<close> frees the two context structures and
  leaves the sink it borrows untouched: the sink is not destroyed, it is still live with
  its content, and its owner can destroy it afterwards.
\<close>

theorem DeInitCtx_frees_sink_DeInitCtxSub_keeps_it:
  assumes own: "load as_OutputCtx w oc = Some x"
      "load as_JsonFlowstartOutputCtx w (data x) = Some c"
      "load as_LogFileCtx w (file_ctx c) = Some l"
    and sub: "load as_OutputCtx v oc' = Some x'"
      "load as_JsonFlowstartOutputCtx v (data x') = Some c'"
      "load as_LogFileCtx v (file_ctx c') = Some l'"
  shows "(\<exists>a fc s w'. oc = Some a \<and> data x = Some fc \<and> file_ctx c = Some s \<and>
            JsonFlowstartLogDeInitCtx oc w = Some w' \<and>
            events w' = events w @ [EvLogFileFreeCtx s, EvFree fc, EvFree a] \<and>
            sink_frees w' s = Suc (sink_frees w s) \<and>
            heap w' = (heap w)(s := None, fc := None, a := None)) \<and>
         (\<exists>a fc s v'. oc' = Some a \<and> data x' = Some fc \<and> file_ctx c' = Some s \<and>
            JsonFlowstartLogDeInitCtxSub oc' v = Some v' \<and>
            events v' = events v @ [EvFree fc, EvFree a] \<and>
            sink_frees v' s = sink_frees v s \<and>
            heap v' = (heap v)(fc := None, a := None) \<and>
            load as_LogFileCtx v' (Some s) = Some l' \<and>
            LogFileFreeCtx (Some s) v' \<noteq> None)"
proof -
  from own(1) obtain a where a: "oc = Some a"
    by (blast dest: load_OutputCtx_D)
  from own(2) obtain fc where fc: "data x = Some fc"
    by (blast dest: load_JsonFlowstartOutputCtx_D)
  from own(3) obtain s where s: "file_ctx c = Some s"
    by (blast dest: load_LogFileCtx_D)
  have 1: "JsonFlowstartLogDeInitCtx oc w =
      Some (w\<lparr>heap := (heap w)(s := None, fc := None, a := None),
              events := events w @ [EvLogFileFreeCtx s, EvFree fc, EvFree a],
              released := (released w)
                (fc \<mapsto> O_JsonFlowstartOutputCtx c, a \<mapsto> O_OutputCtx x)\<rparr>)"
    using own a fc s DeInitCtx_effect [of w a x fc c s l] by simp
  from sub(1) obtain a' where a': "oc' = Some a'" "heap v a' = Some (O_OutputCtx x')"
    by (blast dest: load_OutputCtx_D)
  from sub(2) obtain fc' where fc': "data x' = Some fc'"
    "heap v fc' = Some (O_JsonFlowstartOutputCtx c')"
    by (blast dest: load_JsonFlowstartOutputCtx_D)
  from sub(3) obtain s' where s': "file_ctx c' = Some s'" "heap v s' = Some (O_LogFileCtx l')"
    by (blast dest: load_LogFileCtx_D)
  from a'(2) fc'(2) s'(2) have ne: "s' \<noteq> a'" "s' \<noteq> fc'"
    by auto
  have 2: "JsonFlowstartLogDeInitCtxSub oc' v =
      Some (v\<lparr>heap := (heap v)(fc' := None, a' := None),
              events := events v @ [EvFree fc', EvFree a'],
              released := (released v)
                (fc' \<mapsto> O_JsonFlowstartOutputCtx c', a' \<mapsto> O_OutputCtx x')\<rparr>)"
    using sub a'(1) fc'(1) DeInitCtxSub_effect [of v a' x' fc' c'] by simp
  show ?thesis
    using 1 2 a fc s a'(1) fc'(1) s' ne
    by (simp add: sink_frees_def load_Some LogFileFreeCtx_def)
qed

theorem DeInitCtx_frees_sink_DeInitCtxSub_keeps_it_witness:
  "load as_OutputCtx (ex_world []) (Some 2) =
     Some \<lparr>data = Some 0, DeInit = Some FN_JsonFlowstartLogDeInitCtx\<rparr> \<and>
   load as_JsonFlowstartOutputCtx (ex_world []) (Some 0) = Some \<lparr>file_ctx = Some 1\<rparr> \<and>
   load as_LogFileCtx (ex_world []) (Some 1) =
     Some \<lparr>filename = Some ''flowstart.json'', written = []\<rparr> \<and>
   load as_OutputCtx ex_world_sub (Some 3) =
     Some \<lparr>data = Some 2, DeInit = Some FN_JsonFlowstartLogDeInitCtxSub\<rparr> \<and>
   load as_JsonFlowstartOutputCtx ex_world_sub (Some 2) = Some \<lparr>file_ctx = Some 1\<rparr> \<and>
   load as_LogFileCtx ex_world_sub (Some 1) =
     Some \<lparr>filename = Some ''eve.json'', written = []\<rparr> \<and>
   (\<exists>w'. JsonFlowstartLogDeInitCtx (Some 2) (ex_world []) = Some w' \<and>
          sink_frees w' 1 = Suc (sink_frees (ex_world []) 1)) \<and>
   (\<exists>v'. JsonFlowstartLogDeInitCtxSub (Some 3) ex_world_sub = Some v' \<and>
          sink_frees v' 1 = sink_frees ex_world_sub 1 \<and>
          load as_LogFileCtx v' (Some 1) = Some \<lparr>filename = Some ''eve.json'', written = []\<rparr>)"
proof -
  have h1: "load as_OutputCtx (ex_world []) (Some 2) =
      Some \<lparr>data = Some 0, DeInit = Some FN_JsonFlowstartLogDeInitCtx\<rparr>"
    by (simp add: load_Some ex_world_def)
  have h2: "load as_JsonFlowstartOutputCtx (ex_world [])
      (data \<lparr>data = Some 0, DeInit = Some FN_JsonFlowstartLogDeInitCtx\<rparr>) =
      Some \<lparr>file_ctx = Some 1\<rparr>"
    by (simp add: load_Some ex_world_def)
  have h3: "load as_LogFileCtx (ex_world []) (file_ctx \<lparr>file_ctx = Some 1\<rparr>) =
      Some \<lparr>filename = Some ''flowstart.json'', written = []\<rparr>"
    by (simp add: load_Some ex_world_def)
  have h4: "load as_OutputCtx ex_world_sub (Some 3) =
      Some \<lparr>data = Some 2, DeInit = Some FN_JsonFlowstartLogDeInitCtxSub\<rparr>"
    by (simp add: load_Some ex_world_sub_def)
  have h5: "load as_JsonFlowstartOutputCtx ex_world_sub
      (data \<lparr>data = Some 2, DeInit = Some FN_JsonFlowstartLogDeInitCtxSub\<rparr>) =
      Some \<lparr>file_ctx = Some 1\<rparr>"
    by (simp add: load_Some ex_world_sub_def)
  have h6: "load as_LogFileCtx ex_world_sub (file_ctx \<lparr>file_ctx = Some 1\<rparr>) =
      Some \<lparr>filename = Some ''eve.json'', written = []\<rparr>"
    by (simp add: load_Some ex_world_sub_def)
  from DeInitCtx_frees_sink_DeInitCtxSub_keeps_it [OF h1 h2 h3 h4 h5 h6]
  have "(\<exists>w'. JsonFlowstartLogDeInitCtx (Some 2) (ex_world []) = Some w' \<and>
          sink_frees w' 1 = Suc (sink_frees (ex_world []) 1)) \<and>
   (\<exists>v'. JsonFlowstartLogDeInitCtxSub (Some 3) ex_world_sub = Some v' \<and>
          sink_frees v' 1 = sink_frees ex_world_sub 1 \<and>
          load as_LogFileCtx v' (Some 1) = Some \<lparr>filename = Some ''eve.json'', written = []\<rparr>)"
    by auto
  with h1 h2 h3 h4 h5 h6 show ?thesis
    by simp
qed

text \<open>
  C8. With the next three addresses unused, \<open>JsonFlowstartLogInitCtx\<close> returns. When the two context allocations, the sink
  allocation and the file open all succeed, it returns a new output context that is
  bound to the owning destructor \<open>JsonFlowstartLogDeInitCtx\<close> and leads to a new sink,
  opened under the configured file name and, when none is configured, under the default
  name flowstart.json. When any of the four fails, it returns null and the store is what
  it was before the call: everything built so far has been released.
\<close>

theorem JsonFlowstartLogInitCtx_result:
  assumes fresh: "heap w (brk w) = None" "heap w (Suc (brk w)) = None"
    "heap w (Suc (Suc (brk w))) = None"
  shows "\<exists>r w'. JsonFlowstartLogInitCtx conf w = Some (r, w') \<and>
           (if outcome w 0 \<and> outcome w 1 \<and> outcome w 2 \<and> outcome w 3
            then r = Some (Suc (Suc (brk w))) \<and>
                 heap w' = (heap w)
                   (brk w \<mapsto> O_JsonFlowstartOutputCtx \<lparr>file_ctx = Some (Suc (brk w))\<rparr>,
                    Suc (brk w) \<mapsto> O_LogFileCtx
                      \<lparr>filename = Some (case conf_filename conf of
                                          None \<Rightarrow> ''flowstart.json'' | Some n \<Rightarrow> n),
                       written = []\<rparr>,
                    Suc (Suc (brk w)) \<mapsto> O_OutputCtx
                      \<lparr>data = Some (brk w), DeInit = Some FN_JsonFlowstartLogDeInitCtx\<rparr>)
            else r = None \<and> heap w' = heap w)"
proof (cases "outcome w 0")
  case False
  then show ?thesis
    by (simp add: JsonFlowstartLogInitCtx_def SCCalloc_def alloc_simps)
next
  case o0: True
  show ?thesis
  proof (cases "outcome w (Suc 0)")
    case False
    with o0 fresh show ?thesis
      by (auto simp: JsonFlowstartLogInitCtx_def SCCalloc_def LogFileNewCtx_def alloc_simps
          JsonFlowstartOutputCtxFree_def SCFree_def fun_eq_iff)
  next
    case o1: True
    show ?thesis
    proof (cases "outcome w (Suc (Suc 0))")
      case False
      with o0 o1 fresh show ?thesis
        by (auto simp: JsonFlowstartLogInitCtx_def SCCalloc_def LogFileNewCtx_def alloc_simps
          JsonFlowstartOutputCtxFree_def SCFree_def SCConfLogOpenGeneric_def LogFileFreeCtx_def
          fun_eq_iff)
    next
      case o2: True
      show ?thesis
      proof (cases "outcome w (Suc (Suc (Suc 0)))")
        case False
        with o0 o1 o2 fresh show ?thesis
          by (auto simp: JsonFlowstartLogInitCtx_def SCCalloc_def LogFileNewCtx_def alloc_simps
            JsonFlowstartOutputCtxFree_def SCFree_def SCConfLogOpenGeneric_def LogFileFreeCtx_def
            fun_eq_iff)
      next
        case True
        with o0 o1 o2 fresh show ?thesis
          by (auto simp: JsonFlowstartLogInitCtx_def SCCalloc_def LogFileNewCtx_def alloc_simps
            DEFAULT_LOG_FILENAME_def SCConfLogOpenGeneric_def fun_eq_iff)
      qed
    qed
  qed
qed

theorem JsonFlowstartLogInitCtx_result_witness:
  "heap ex_world_sub (brk ex_world_sub) = None \<and>
   heap ex_world_sub (Suc (brk ex_world_sub)) = None \<and>
   heap ex_world_sub (Suc (Suc (brk ex_world_sub))) = None \<and>
   (\<exists>w'. JsonFlowstartLogInitCtx \<lparr>conf_filename = None\<rparr> ex_world_sub = Some (Some 6, w') \<and>
          heap w' = (heap ex_world_sub)
            (4 \<mapsto> O_JsonFlowstartOutputCtx \<lparr>file_ctx = Some 5\<rparr>,
             5 \<mapsto> O_LogFileCtx \<lparr>filename = Some ''flowstart.json'', written = []\<rparr>,
             6 \<mapsto> O_OutputCtx \<lparr>data = Some 4, DeInit = Some FN_JsonFlowstartLogDeInitCtx\<rparr>))"
proof -
  have h1: "heap ex_world_sub (brk ex_world_sub) = None"
    by (simp add: ex_world_sub_def)
  have h2: "heap ex_world_sub (Suc (brk ex_world_sub)) = None"
    by (simp add: ex_world_sub_def)
  have h3: "heap ex_world_sub (Suc (Suc (brk ex_world_sub))) = None"
    by (simp add: ex_world_sub_def)
  have o: "outcome ex_world_sub 0" "outcome ex_world_sub 1" "outcome ex_world_sub 2"
    "outcome ex_world_sub 3"
    by (simp_all add: outcome_def ex_world_sub_def)
  have b: "brk ex_world_sub = 4"
    by (simp add: ex_world_sub_def)
  from JsonFlowstartLogInitCtx_result [OF h1 h2 h3, of "\<lparr>conf_filename = None\<rparr>"] o b
  have "\<exists>w'. JsonFlowstartLogInitCtx \<lparr>conf_filename = None\<rparr> ex_world_sub = Some (Some 6, w') \<and>
          heap w' = (heap ex_world_sub)
            (4 \<mapsto> O_JsonFlowstartOutputCtx \<lparr>file_ctx = Some 5\<rparr>,
             5 \<mapsto> O_LogFileCtx \<lparr>filename = Some ''flowstart.json'', written = []\<rparr>,
             6 \<mapsto> O_OutputCtx \<lparr>data = Some 4, DeInit = Some FN_JsonFlowstartLogDeInitCtx\<rparr>)"
    by (auto simp: eval_nat_numeral)
  with h1 h2 h3 show ?thesis
    by blast
qed

end
